theory Spec2Isabelle
  imports Main
begin

section \<open>JavaScript strings and values\<close>

text \<open>
  The program is the single file \<^verbatim>\<open>script.js\<close>. A string is the list of the UTF-8 bytes
  of its text (\<^typ>\<open>string\<close>): concatenation, equality, the search for a substring and
  the tests for ASCII characters are on this list what they are in the program.

  Three operations of the platform depend on the Unicode tables or on UTF-16 code units:
  \<^verbatim>\<open>String.prototype.trim\<close>, \<^verbatim>\<open>String.prototype.toLowerCase\<close> and the first code unit
  \<^verbatim>\<open>s[0]\<close> of a string. They are not part of the program, and they are parameters here:
  every function that uses one of them takes the platform \<open>js\<close>, and nothing is assumed
  of it, so what is proved of a function holds whatever the three operations do.
\<close>

record platform =
  trim :: "string \<Rightarrow> string"
  toLowerCase :: "string \<Rightarrow> string"
  first_code_unit :: "string \<Rightarrow> string"

text \<open>An exception: the name of its class and its \<^verbatim>\<open>message\<close>.\<close>

datatype error = Error (error_name: string) (message: string)

definition TypeError :: "string \<Rightarrow> error" where
  "TypeError m = Error ''TypeError'' m"

definition SyntaxError :: "string \<Rightarrow> error" where
  "SyntaxError m = Error ''SyntaxError'' m"

definition QuotaExceededError :: "string \<Rightarrow> error" where
  "QuotaExceededError m = Error ''QuotaExceededError'' m"

definition SecurityError :: "string \<Rightarrow> error" where
  "SecurityError m = Error ''SecurityError'' m"

definition is_digit :: "char \<Rightarrow> bool" where
  "is_digit c = (c \<in> set ''0123456789'')"

definition digit_char :: "nat \<Rightarrow> char" where
  "digit_char d = ''0123456789'' ! d"

text \<open>
  The decimal numeral of a natural number, as a template literal renders the step number
  \<^verbatim>\<open>${i + 1}\<close>: an array has fewer than \<open>2\<^sup>3\<^sup>2\<close> elements, and below \<open>10\<^sup>2\<^sup>1\<close> the rendering of
  a whole number is its decimal numeral.
\<close>

fun show_nat :: "nat \<Rightarrow> string" where
  "show_nat n = (if n < 10 then [digit_char n] else show_nat (n div 10) @ [digit_char (n mod 10)])"

declare show_nat.simps [simp del]

text \<open>The value of a string of decimal digits.\<close>

definition digits_value :: "string \<Rightarrow> int" where
  "digits_value s = foldl (\<lambda>acc c. 10 * acc + ((of_char c :: int) - 48)) 0 s"

text \<open>\<^verbatim>\<open>Array.prototype.join\<close> on an array of strings.\<close>

fun join :: "string \<Rightarrow> string list \<Rightarrow> string" where
  "join sep [] = []"
| "join sep [x] = x"
| "join sep (x # y # ys) = x @ sep @ join sep (y # ys)"

text \<open>\<^verbatim>\<open>x || d\<close> for an optional string \<open>x\<close>: a missing and an empty string are falsy.\<close>

definition or_else :: "string option \<Rightarrow> string \<Rightarrow> string" where
  "or_else x d = (case x of None \<Rightarrow> d | Some s \<Rightarrow> if s = [] then d else s)"

section \<open>Products\<close>

text \<open>
  A number of a JSON document is kept as the text that \<^verbatim>\<open>String\<close> and a template literal
  give for it: \<^verbatim>\<open>1\<close> for 1, \<^verbatim>\<open>0.5\<close>, \<^verbatim>\<open>1e+21\<close> for \<open>10\<^sup>2\<^sup>1\<close>. The program renders such a
  number, tests whether it is zero and compares it with \<^verbatim>\<open>===\<close>, nothing else; and two
  numbers of a JSON document are \<^verbatim>\<open>===\<close> exactly when they are rendered alike (\<^verbatim>\<open>0\<close> and
  \<^verbatim>\<open>-0\<close> are equal, and both are rendered \<^verbatim>\<open>0\<close>).
\<close>

datatype number = Number (rendering: string)

text \<open>
  A catalog identifier is a JSON string or a JSON number. \<^verbatim>\<open>String(v)\<close> renders it;
  \<^verbatim>\<open>===\<close> never equates a number and a string.
\<close>

datatype ident = NumId number | StrId string

fun String :: "ident \<Rightarrow> string" where
  "String (NumId n) = rendering n"
| "String (StrId s) = s"

fun strict_eq :: "ident \<Rightarrow> ident \<Rightarrow> bool" where
  "strict_eq (NumId a) (NumId b) = (a = b)"
| "strict_eq (StrId a) (StrId b) = (a = b)"
| "strict_eq _ _ = False"

record product =
  ident :: "ident option"
  name :: string
  brand :: "string option"
  category :: "string option"
  description :: "string option"
  image :: "string option"

text \<open>\<^verbatim>\<open>p.id ?? p.name\<close>\<close>

definition product_key :: "product \<Rightarrow> ident" where
  "product_key p = (case ident p of None \<Rightarrow> StrId (name p) | Some i \<Rightarrow> i)"

section \<open>The local routine builder\<close>

text \<open>
  \<^verbatim>\<open>buildLocalRoutine\<close> groups the products in a plain object \<^verbatim>\<open>buckets = {}\<close>. The
  object is an association list in insertion order. Reading \<^verbatim>\<open>buckets[cat]\<close> finds an
  own property, or else a property inherited from \<^verbatim>\<open>Object.prototype\<close>. The inherited
  properties are the functions named below and the accessor \<^verbatim>\<open>__proto__\<close>, whose value
  is \<^verbatim>\<open>Object.prototype\<close>; all are truthy and none has a \<^verbatim>\<open>push\<close>. (Of these names a
  lower-cased category can only be \<^verbatim>\<open>constructor\<close> or \<^verbatim>\<open>__proto__\<close>.)
\<close>

type_synonym buckets = "(string \<times> product list) list"

definition inherited_names :: "string list" where
  "inherited_names =
     [''constructor'', ''__defineGetter__'', ''__defineSetter__'', ''hasOwnProperty'',
      ''__lookupGetter__'', ''__lookupSetter__'', ''isPrototypeOf'', ''propertyIsEnumerable'',
      ''toString'', ''valueOf'', ''__proto__'', ''toLocaleString'']"

text \<open>The inherited functions whose \<^verbatim>\<open>length\<close> is not zero.\<close>

definition inherited_with_length :: "string list" where
  "inherited_with_length =
     [''constructor'', ''__defineGetter__'', ''__defineSetter__'', ''hasOwnProperty'',
      ''__lookupGetter__'', ''__lookupSetter__'', ''isPrototypeOf'', ''propertyIsEnumerable'']"

datatype lookup = Undefined | Array "product list" | Inherited string

definition get_bucket :: "buckets \<Rightarrow> string \<Rightarrow> lookup" where
  "get_bucket b cat =
     (case map_of b cat of
        Some list \<Rightarrow> Array list
      | None \<Rightarrow> if cat \<in> set inherited_names then Inherited cat else Undefined)"

definition push_bucket :: "buckets \<Rightarrow> string \<Rightarrow> product \<Rightarrow> buckets" where
  "push_bucket b cat p = map (\<lambda>(k, list). if k = cat then (k, list @ [p]) else (k, list)) b"

definition delete_bucket :: "buckets \<Rightarrow> string \<Rightarrow> buckets" where
  "delete_bucket b cat = filter (\<lambda>(k, list). k \<noteq> cat) b"

definition order :: "string list" where
  "order = [''cleanser'', ''exfoliant'', ''toner'', ''essence'', ''serum'', ''eye'',
            ''moisturizer'', ''oil'', ''sunscreen'']"

text \<open>\<^verbatim>\<open>String(p.category || "other").trim().toLowerCase()\<close>\<close>

definition normalized_category :: "platform \<Rightarrow> product \<Rightarrow> string" where
  "normalized_category js p = toLowerCase js (trim js (or_else (category p) ''other''))"

text \<open>The body of the first loop: \<^verbatim>\<open>if (!buckets[cat]) buckets[cat] = []; buckets[cat].push(p)\<close>.\<close>

definition group_product :: "platform \<Rightarrow> buckets \<Rightarrow> product \<Rightarrow> error + buckets" where
  "group_product js b p =
     (let cat = normalized_category js p in
      case get_bucket b cat of
        Undefined \<Rightarrow> Inr (push_bucket (b @ [(cat, [])]) cat p)
      | Array list \<Rightarrow> Inr (push_bucket b cat p)
      | Inherited nm \<Rightarrow> Inl (TypeError ''buckets[cat].push is not a function''))"

fun group_products :: "platform \<Rightarrow> product list \<Rightarrow> buckets \<Rightarrow> error + buckets" where
  "group_products js [] b = Inr b"
| "group_products js (p # ps) b =
     (case group_product js b p of Inl e \<Rightarrow> Inl e | Inr b' \<Rightarrow> group_products js ps b')"

record step =
  step_cat :: string
  step_name :: string
  step_reason :: string

definition ordered_step :: "string \<Rightarrow> product \<Rightarrow> step" where
  "ordered_step cat product =
     \<lparr>step_cat = cat, step_name = name product,
      step_reason = ''Use '' @ name product @ '' ('' @ or_else (brand product) ''brand'' @ '') as a '' @ cat @ ''.''\<rparr>"

definition remaining_step :: "string \<Rightarrow> product \<Rightarrow> step" where
  "remaining_step cat product =
     \<lparr>step_cat = cat, step_name = name product,
      step_reason = ''Use '' @ name product @ '' ('' @ or_else (brand product) ''brand'' @ '') in the '' @ cat @ '' step.''\<rparr>"

text \<open>
  The second loop, over \<^verbatim>\<open>order\<close>. \<^verbatim>\<open>continue\<close> skips the \<^verbatim>\<open>delete\<close>. An inherited
  function whose \<^verbatim>\<open>length\<close> is not zero passes both tests, and \<^verbatim>\<open>for ... of\<close> cannot
  iterate it; the other inherited values have the length zero or none.
\<close>

fun ordered_steps :: "string list \<Rightarrow> buckets \<Rightarrow> step list \<Rightarrow> error + (buckets \<times> step list)" where
  "ordered_steps [] b steps = Inr (b, steps)"
| "ordered_steps (cat # cats) b steps =
     (case get_bucket b cat of
        Undefined \<Rightarrow> ordered_steps cats b steps
      | Inherited nm \<Rightarrow>
          if nm \<in> set inherited_with_length then Inl (TypeError ''list is not iterable'')
          else ordered_steps cats b steps
      | Array list \<Rightarrow>
          if list = [] then ordered_steps cats b steps
          else ordered_steps cats (delete_bucket b cat) (steps @ map (ordered_step cat) list))"

text \<open>
  \<^verbatim>\<open>Object.keys\<close> lists the own keys that are array indices (canonical decimal numerals
  up to \<open>2\<^sup>3\<^sup>2 - 2\<close>) first, in ascending numeric order, and then the other keys in the order
  in which they were created.
\<close>

definition is_array_index :: "string \<Rightarrow> bool" where
  "is_array_index k =
     (k \<noteq> [] \<and> list_all is_digit k \<and> (k = ''0'' \<or> hd k \<noteq> CHR ''0'') \<and>
      length k \<le> 10 \<and> digits_value k < 4294967295)"

definition object_keys :: "buckets \<Rightarrow> string list" where
  "object_keys b =
     sort_key digits_value (filter is_array_index (map fst b)) @
     filter (\<lambda>k. \<not> is_array_index k) (map fst b)"

text \<open>The third loop. Every key of \<^verbatim>\<open>Object.keys(buckets)\<close> is an own property.\<close>

definition remaining_steps :: "buckets \<Rightarrow> step list" where
  "remaining_steps b =
     concat (map (\<lambda>cat. case map_of b cat of
                           Some list \<Rightarrow> map (remaining_step cat) list
                         | None \<Rightarrow> [])
                 (object_keys b))"

definition em_dash :: string where
  "em_dash = [CHR 0xE2, CHR 0x80, CHR 0x94]"

definition newline :: string where
  "newline = [CHR 0x0A]"

definition step_line :: "nat \<Rightarrow> step \<Rightarrow> string" where
  "step_line i s = show_nat (i + 1) @ ''. '' @ step_name s @ '' '' @ em_dash @ '' '' @ step_reason s"

definition format_routine :: "step list \<Rightarrow> string" where
  "format_routine steps =
     (if steps = [] then ''No products selected to build a routine.''
      else join newline
        ([''Recommended routine based on selected products:'', ''''] @
         map (\<lambda>(i, s). step_line i s) (enumerate 0 steps) @
         ['''', ''Short precautions: Patch test new products and avoid mixing strong actives.'']))"

definition buildLocalRoutine :: "platform \<Rightarrow> product list \<Rightarrow> error + string" where
  "buildLocalRoutine js products =
     (case group_products js products [] of
        Inl e \<Rightarrow> Inl e
      | Inr buckets \<Rightarrow>
          (case ordered_steps order buckets [] of
             Inl e \<Rightarrow> Inl e
           | Inr (buckets', steps) \<Rightarrow> Inr (format_routine (steps @ remaining_steps buckets'))))"

section \<open>JSON documents\<close>

text \<open>
  A JSON document. \<^verbatim>\<open>JSON.stringify\<close> and \<^verbatim>\<open>JSON.parse\<close> belong
  to the platform, so a stored or received text is represented by the document it
  denotes: \<open>Document j\<close> is the text \<^verbatim>\<open>JSON.stringify\<close> gives for \<open>j\<close>, which
  \<^verbatim>\<open>JSON.parse\<close> reads back as \<open>j\<close>, and \<open>Garbled s\<close> is a text \<open>s\<close> that is not JSON, on
  which \<^verbatim>\<open>JSON.parse\<close> throws a \<^verbatim>\<open>SyntaxError\<close>.
\<close>

datatype json =
    JNull
  | JBool bool
  | JNumber number
  | JString string
  | JArray "json list"
  | JObject "(string \<times> json) list"

datatype stored = Document json | Garbled string

definition JSON_stringify :: "json \<Rightarrow> stored" where
  "JSON_stringify j = Document j"

fun JSON_parse :: "stored \<Rightarrow> error + json" where
  "JSON_parse (Document j) = Inr j"
| "JSON_parse (Garbled s) = Inl (SyntaxError ''Unexpected token'')"

text \<open>\<^verbatim>\<open>String(v)\<close> for a parsed value; an array joins its elements with a comma, \<^verbatim>\<open>null\<close>
  elements as the empty string.\<close>

fun String_json :: "json \<Rightarrow> string" where
  "String_json JNull = ''null''"
| "String_json (JBool b) = (if b then ''true'' else ''false'')"
| "String_json (JNumber n) = rendering n"
| "String_json (JString s) = s"
| "String_json (JArray xs) = join '','' (map (\<lambda>x. if x = JNull then [] else String_json x) xs)"
| "String_json (JObject kvs) = ''[object Object]''"

section \<open>Application state\<close>

text \<open>
  The state is passed explicitly: the two globals \<^verbatim>\<open>selectedProductIds\<close> and
  \<^verbatim>\<open>allProductsCache\<close>, the storage, and the parts of the page that the functions read
  and write. The summary list of the selection (\<^verbatim>\<open>renderSelectedProductsList\<close>), the
  inline description panels and the console are projections that nothing reads back,
  and they are left out.

  \<^verbatim>\<open>localStorage\<close>: the stored items, and two conditions of the browser under which an
  access throws (storage disabled: every access; quota exhausted: every write).
\<close>

record storage =
  items :: "string \<rightharpoonup> stored"
  blocked :: bool
  full :: bool

definition setItem :: "storage \<Rightarrow> string \<Rightarrow> stored \<Rightarrow> error + storage" where
  "setItem s k v =
     (if blocked s then Inl (SecurityError ''The operation is insecure.'')
      else if full s then Inl (QuotaExceededError ''The quota has been exceeded.'')
      else Inr (s\<lparr>items := (items s)(k \<mapsto> v)\<rparr>))"

definition getItem :: "storage \<Rightarrow> string \<Rightarrow> error + stored option" where
  "getItem s k =
     (if blocked s then Inl (SecurityError ''The operation is insecure.'')
      else Inr (items s k))"

text \<open>
  The product grid. A card is a DOM element (\<open>card_el\<close> is its identity) carrying the
  \<^verbatim>\<open>data-product-id\<close> attribute and the classes \<^verbatim>\<open>selected\<close> and \<^verbatim>\<open>highlighted\<close>. The
  content of \<^verbatim>\<open>#productsContainer\<close> is one of the two placeholder messages or a list of
  cards.
\<close>

record card =
  card_el :: nat
  data_product_id :: string
  selected :: bool
  highlighted :: bool
  card_product :: product

datatype view =
    SelectCategoryPlaceholder
  | NoMatchesPlaceholder
  | Cards "card list"

text \<open>
  A detail overlay: the element, with the card and the product its closures
  (\<^verbatim>\<open>closeModal\<close>, \<^verbatim>\<open>escHandler\<close>) refer to.
\<close>

record overlay =
  overlay_el :: nat
  overlay_card :: nat
  overlay_product :: product

text \<open>The \<^verbatim>\<open>select\<close> control: its value and the text of its first selected option.\<close>

record select_control =
  select_value :: string
  selected_option_text :: "string option"

text \<open>A call of \<^verbatim>\<open>fetch\<close> on the generation endpoint, as the network sees it.\<close>

record request =
  url :: string
  authorization :: string
  payload :: "product list"

record app =
  selectedProductIds :: "string list"
  allProductsCache :: "product list option"
  localStorage :: storage
  categoryFilter :: "select_control option"
  searchInput :: "string option"
  productsContainer :: "view option"
  chatWindow :: "string option"
  OPENAI_API_KEY :: "string option"
  overlays :: "overlay list"
  keydown_listeners :: "overlay list"
  next_el :: nat
  requests :: "request list"

section \<open>The selection set\<close>

text \<open>
  \<^verbatim>\<open>selectedProductIds\<close> is a \<^verbatim>\<open>Set\<close>: its members in insertion order. Every value the
  program adds is a string (a \<^verbatim>\<open>data-product-id\<close> attribute or a \<^verbatim>\<open>String(id)\<close>), so
  \<^verbatim>\<open>has\<close> on a number is false.
\<close>

definition set_add :: "string \<Rightarrow> string list \<Rightarrow> string list" where
  "set_add x xs = (if x \<in> set xs then xs else xs @ [x])"

definition set_delete :: "string \<Rightarrow> string list \<Rightarrow> string list" where
  "set_delete x xs = filter (\<lambda>y. y \<noteq> x) xs"

fun set_has :: "string list \<Rightarrow> ident \<Rightarrow> bool" where
  "set_has xs (StrId s) = (s \<in> set xs)"
| "set_has xs (NumId n) = False"

text \<open>\<^verbatim>\<open>products.find((it) => String(it.id ?? it.name) === String(id))\<close>, for a string \<open>id\<close>.\<close>

definition find_by_string :: "product list \<Rightarrow> string \<Rightarrow> product option" where
  "find_by_string products i = find (\<lambda>it. String (product_key it) = i) products"

text \<open>\<^verbatim>\<open>products.find((p) => (p.id ?? p.name) === pid)\<close> of the card click handler.\<close>

definition find_strict :: "product list \<Rightarrow> string \<Rightarrow> product option" where
  "find_strict products pid = find (\<lambda>p. strict_eq (product_key p) (StrId pid)) products"

definition minimal_fields :: "product \<Rightarrow> product" where
  "minimal_fields p =
     \<lparr>ident = ident p, name = name p, brand = brand p, category = category p,
      description = Some (or_else (description p) []), image = None\<rparr>"

fun selected_loop :: "product list \<Rightarrow> string list \<Rightarrow> product list \<Rightarrow> product list" where
  "selected_loop products [] sel = sel"
| "selected_loop products (i # ids) sel =
     (case find_by_string products i of
        None \<Rightarrow> selected_loop products ids sel
      | Some p \<Rightarrow> selected_loop products ids (sel @ [minimal_fields p]))"

text \<open>\<^verbatim>\<open>allProductsCache || []\<close>\<close>

definition cached_products :: "app \<Rightarrow> product list" where
  "cached_products st = (case allProductsCache st of None \<Rightarrow> [] | Some ps \<Rightarrow> ps)"

definition getSelectedProductsData :: "app \<Rightarrow> product list" where
  "getSelectedProductsData st = selected_loop (cached_products st) (selectedProductIds st) []"

text \<open>Both storage helpers catch every exception and only log it.\<close>

definition saveSelectedToStorage :: "app \<Rightarrow> app" where
  "saveSelectedToStorage st =
     (case setItem (localStorage st) ''selectedProductIds''
             (JSON_stringify (JArray (map JString (selectedProductIds st)))) of
        Inl e \<Rightarrow> st
      | Inr s \<Rightarrow> st\<lparr>localStorage := s\<rparr>)"

text \<open>\<^verbatim>\<open>if (Array.isArray(arr)) for (const id of arr) selectedProductIds.add(String(id))\<close>\<close>

fun add_parsed :: "json \<Rightarrow> string list \<Rightarrow> string list" where
  "add_parsed (JArray arr) sel = foldl (\<lambda>acc i. set_add (String_json i) acc) sel arr"
| "add_parsed _ sel = sel"

definition loadSelectedFromStorage :: "app \<Rightarrow> app" where
  "loadSelectedFromStorage st =
     (case getItem (localStorage st) ''selectedProductIds'' of
        Inl e \<Rightarrow> st
      | Inr None \<Rightarrow> st
      | Inr (Some raw) \<Rightarrow>
          if raw = Garbled [] then st
          else
            (case JSON_parse raw of
               Inl e \<Rightarrow> st
             | Inr arr \<Rightarrow> st\<lparr>selectedProductIds := add_parsed arr (selectedProductIds st)\<rparr>))"

section \<open>The product grid and the detail overlay\<close>

text \<open>
  \<^verbatim>\<open>displayProducts\<close> replaces the content of the container by fresh card elements. It
  has no guard: without the container the assignment throws. The identifier goes into
  the attribute as \<^verbatim>\<open>String(pid)\<close>, and into \<^verbatim>\<open>selectedProductIds.has\<close> as it is.
\<close>

definition render_card :: "string list \<Rightarrow> nat \<Rightarrow> product \<Rightarrow> card" where
  "render_card sel el p =
     \<lparr>card_el = el, data_product_id = String (product_key p),
      selected = set_has sel (product_key p), highlighted = False, card_product = p\<rparr>"

definition displayProducts :: "product list \<Rightarrow> app \<Rightarrow> error + app" where
  "displayProducts products st =
     (case productsContainer st of
        None \<Rightarrow> Inl (TypeError ''productsContainer is null'')
      | Some v \<Rightarrow>
          Inr (st\<lparr>productsContainer :=
                     Some (Cards (map (\<lambda>(el, p). render_card (selectedProductIds st) el p)
                                      (enumerate (next_el st) products))),
                   next_el := next_el st + length products\<rparr>))"

fun on_cards :: "(card list \<Rightarrow> card list) \<Rightarrow> view \<Rightarrow> view" where
  "on_cards f (Cards cs) = Cards (f cs)"
| "on_cards f v = v"

fun unhighlight_first :: "card list \<Rightarrow> card list" where
  "unhighlight_first [] = []"
| "unhighlight_first (c # cs) =
     (if highlighted c then c\<lparr>highlighted := False\<rparr> # cs else c # unhighlight_first cs)"

definition set_highlighted :: "nat \<Rightarrow> bool \<Rightarrow> card list \<Rightarrow> card list" where
  "set_highlighted el b cs = map (\<lambda>c. if card_el c = el then c\<lparr>highlighted := b\<rparr> else c) cs"

definition set_selected :: "nat \<Rightarrow> bool \<Rightarrow> card list \<Rightarrow> card list" where
  "set_selected el b cs = map (\<lambda>c. if card_el c = el then c\<lparr>selected := b\<rparr> else c) cs"

text \<open>\<^verbatim>\<open>clearHighlights\<close> reads \<^verbatim>\<open>productsContainer.querySelector\<close> without a guard.\<close>

definition clearHighlights :: "app \<Rightarrow> error + app" where
  "clearHighlights st =
     (case productsContainer st of
        None \<Rightarrow> Inl (TypeError ''productsContainer is null'')
      | Some v \<Rightarrow> Inr (st\<lparr>productsContainer := Some (on_cards unhighlight_first v)\<rparr>))"

text \<open>
  \<^verbatim>\<open>closeModal\<close>, the closure of one overlay: it removes the overlay element, the
  highlight of its card and its own \<^verbatim>\<open>keydown\<close> listener. A card that is no longer in the
  container is not in the model, and the class change on it shows nowhere.
\<close>

definition closeModal :: "overlay \<Rightarrow> app \<Rightarrow> app" where
  "closeModal ov st =
     st\<lparr>overlays := filter (\<lambda>x. overlay_el x \<noteq> overlay_el ov) (overlays st),
        productsContainer :=
          map_option (on_cards (set_highlighted (overlay_card ov) False)) (productsContainer st),
        keydown_listeners :=
          filter (\<lambda>x. overlay_el x \<noteq> overlay_el ov) (keydown_listeners st)\<rparr>"

text \<open>
  \<^verbatim>\<open>closeExistingModal\<close>: \<^verbatim>\<open>getElementById\<close> gives the first overlay of the document.
  Every overlay is made by \<^verbatim>\<open>showProductModal\<close>, which stores \<^verbatim>\<open>_close\<close> on it, and
  \<^verbatim>\<open>closeModal\<close> does not throw, so the two fallback branches are never taken.
\<close>

definition closeExistingModal :: "app \<Rightarrow> app" where
  "closeExistingModal st =
     (case overlays st of [] \<Rightarrow> st | existing # others \<Rightarrow> closeModal existing st)"

text \<open>
  \<^verbatim>\<open>showProductModal\<close>: the existing overlay is taken out of the document by
  \<^verbatim>\<open>existing.remove()\<close> alone; the new overlay is appended to the body and its
  \<^verbatim>\<open>escHandler\<close> is added to the listeners of the document.
\<close>

definition showProductModal :: "product \<Rightarrow> nat \<Rightarrow> app \<Rightarrow> error + app" where
  "showProductModal product cardEl st =
     (case clearHighlights st of
        Inl e \<Rightarrow> Inl e
      | Inr st1 \<Rightarrow>
          (let st2 = st1\<lparr>productsContainer :=
                           map_option (on_cards (set_highlighted cardEl True)) (productsContainer st1)\<rparr>;
               remaining = (case overlays st2 of [] \<Rightarrow> [] | existing # others \<Rightarrow> others);
               ov = \<lparr>overlay_el = next_el st2, overlay_card = cardEl, overlay_product = product\<rparr>
           in Inr (st2\<lparr>overlays := remaining @ [ov],
                        keydown_listeners := keydown_listeners st2 @ [ov],
                        next_el := next_el st2 + 1\<rparr>)))"

text \<open>A \<^verbatim>\<open>keydown\<close> of Escape reaches every listener registered on the document.\<close>

definition press_escape :: "app \<Rightarrow> app" where
  "press_escape st = foldl (\<lambda>s ov. closeModal ov s) st (keydown_listeners st)"

text \<open>
  The operations on the overlay: opening one for a product and a card, closing the
  displayed one by its button or a click outside the dialog, the Escape key, and
  \<^verbatim>\<open>closeExistingModal\<close> when the filters change.
\<close>

datatype overlay_op = OpenOverlay product nat | CloseDisplayed | PressEscape | CloseExisting

fun overlay_step :: "app \<Rightarrow> overlay_op \<Rightarrow> app" where
  "overlay_step st (OpenOverlay p c) = (case showProductModal p c st of Inl e \<Rightarrow> st | Inr s \<Rightarrow> s)"
| "overlay_step st CloseDisplayed = (case overlays st of [] \<Rightarrow> st | ov # others \<Rightarrow> closeModal ov st)"
| "overlay_step st PressEscape = press_escape st"
| "overlay_step st CloseExisting = closeExistingModal st"

definition run_overlay_ops :: "app \<Rightarrow> overlay_op list \<Rightarrow> app" where
  "run_overlay_ops st ops = foldl overlay_step st ops"

text \<open>The listeners on the document whose overlay is no longer in the document.\<close>

definition leaked_listeners :: "app \<Rightarrow> overlay list" where
  "leaked_listeners st =
     filter (\<lambda>l. overlay_el l \<notin> set (map overlay_el (overlays st))) (keydown_listeners st)"

section \<open>Catalog, filters and initial load\<close>

text \<open>\<^verbatim>\<open>loadProducts\<close>; \<open>fetched\<close> is what fetching and decoding \<^verbatim>\<open>products.json\<close> gives.\<close>

definition loadProducts :: "error + product list \<Rightarrow> app \<Rightarrow> error + (product list \<times> app)" where
  "loadProducts fetched st =
     (case allProductsCache st of
        Some ps \<Rightarrow> Inr (ps, st)
      | None \<Rightarrow>
          (case fetched of
             Inl e \<Rightarrow> Inl e
           | Inr ps \<Rightarrow> Inr (ps, st\<lparr>allProductsCache := Some ps\<rparr>)))"

text \<open>\<^verbatim>\<open>/^#|:/.test(s)\<close> and \<^verbatim>\<open>s.replace(/^#\w+:/, "")\<close>\<close>

definition looks_templated :: "string \<Rightarrow> bool" where
  "looks_templated s = (case s of [] \<Rightarrow> False | c # cs \<Rightarrow> c = CHR ''#'' \<or> CHR '':'' \<in> set s)"

definition is_word_char :: "char \<Rightarrow> bool" where
  "is_word_char c =
     (c \<in> set ''abcdefghijklmnopqrstuvwxyzABCDEFGHIJKLMNOPQRSTUVWXYZ0123456789_'')"

definition strip_template_prefix :: "string \<Rightarrow> string" where
  "strip_template_prefix s =
     (case s of
        [] \<Rightarrow> s
      | c # cs \<Rightarrow>
          if c = CHR ''#'' \<and> takeWhile is_word_char cs \<noteq> [] then
            (case dropWhile is_word_char cs of
               [] \<Rightarrow> s
             | d # ds \<Rightarrow> if d = CHR '':'' then ds else s)
          else s)"

definition selected_category :: "platform \<Rightarrow> select_control option \<Rightarrow> string" where
  "selected_category js cf =
     (case cf of
        None \<Rightarrow> []
      | Some sel \<Rightarrow>
          (let v = select_value sel in
           if v \<noteq> [] \<and> looks_templated v then
             (case selected_option_text sel of
                None \<Rightarrow> trim js (strip_template_prefix v)
              | Some t \<Rightarrow>
                  if trim js t \<noteq> [] then trim js t else trim js (strip_template_prefix v))
           else v))"

text \<open>The category filter, with its guard \<^verbatim>\<open>if (selectedCategory)\<close>.\<close>

definition filter_by_category :: "platform \<Rightarrow> string \<Rightarrow> product list \<Rightarrow> product list" where
  "filter_by_category js selectedCategory filtered =
     (if selectedCategory \<noteq> [] then
        filter (\<lambda>p. toLowerCase js (trim js (or_else (category p) [])) =
                    toLowerCase js (trim js selectedCategory)) filtered
      else filtered)"

text \<open>\<^verbatim>\<open>fields.includes(q)\<close>\<close>

fun starts_with :: "string \<Rightarrow> string \<Rightarrow> bool" where
  "starts_with s [] = True"
| "starts_with [] (c # q) = False"
| "starts_with (d # s) (c # q) = (d = c \<and> starts_with s q)"

fun includes_str :: "string \<Rightarrow> string \<Rightarrow> bool" where
  "includes_str [] q = (q = [])"
| "includes_str (c # s) q = (starts_with (c # s) q \<or> includes_str s q)"

definition search_fields :: "platform \<Rightarrow> product \<Rightarrow> string" where
  "search_fields js p =
     toLowerCase js (join '' '' [name p, or_else (brand p) [], or_else (description p) [],
                              or_else (category p) []])"

definition filter_by_search :: "platform \<Rightarrow> string \<Rightarrow> product list \<Rightarrow> product list" where
  "filter_by_search js q filtered =
     (if q \<noteq> [] then filter (\<lambda>p. includes_str (search_fields js p) q) filtered else filtered)"

definition search_term :: "platform \<Rightarrow> string option \<Rightarrow> string" where
  "search_term js si = (case si of None \<Rightarrow> [] | Some v \<Rightarrow> toLowerCase js (trim js v))"

definition applyFilters :: "platform \<Rightarrow> error + product list \<Rightarrow> app \<Rightarrow> error + app" where
  "applyFilters js fetched st =
     (case clearHighlights (closeExistingModal st) of
        Inl e \<Rightarrow> Inl e
      | Inr st1 \<Rightarrow>
          (case loadProducts fetched st1 of
             Inl e \<Rightarrow> Inl e
           | Inr (products, st2) \<Rightarrow>
               (let selectedCategory = selected_category js (categoryFilter st2);
                    q = search_term js (searchInput st2);
                    filtered = filter_by_search js q (filter_by_category js selectedCategory products)
                in if productsContainer st2 = None then Inr st2
                   else if selectedCategory = [] \<and> q = [] then
                     Inr (st2\<lparr>productsContainer := Some SelectCategoryPlaceholder\<rparr>)
                   else if filtered = [] then
                     Inr (st2\<lparr>productsContainer := Some NoMatchesPlaceholder\<rparr>)
                   else displayProducts filtered st2)))"

text \<open>
  The initial load at the end of \<^verbatim>\<open>init\<close>: the default category is compared with
  \<^verbatim>\<open>===\<close> and the result is handed to \<^verbatim>\<open>displayProducts\<close> as it is.
\<close>

definition initial_load :: "error + product list \<Rightarrow> app \<Rightarrow> error + app" where
  "initial_load fetched st =
     (case loadProducts fetched st of
        Inl e \<Rightarrow> Inl e
      | Inr (products, st1) \<Rightarrow>
          (let defaultCategory =
                 (case categoryFilter st1 of None \<Rightarrow> [] | Some sel \<Rightarrow> select_value sel);
               filtered =
                 (if defaultCategory \<noteq> [] then
                    filter (\<lambda>p. category p = Some defaultCategory) products
                  else products)
           in displayProducts filtered st1))"

text \<open>
  \<^verbatim>\<open>init\<close>: the selection is restored, the search input is created when the page has
  none, the placeholder is shown, and the initial load runs. The result is the state
  when the initial load has finished (\<open>Inl\<close>: it was rejected).
\<close>

definition init :: "error + product list \<Rightarrow> app \<Rightarrow> error + app" where
  "init fetched st =
     (let st1 = loadSelectedFromStorage st;
          st2 = st1\<lparr>searchInput := Some (case searchInput st1 of None \<Rightarrow> [] | Some v \<Rightarrow> v)\<rparr>;
          st3 = (case productsContainer st2 of
                   None \<Rightarrow> st2
                 | Some v \<Rightarrow> st2\<lparr>productsContainer := Some SelectCategoryPlaceholder\<rparr>)
      in initial_load fetched st3)"

section \<open>The click on a card\<close>

text \<open>The toggle of the click handler, with the persisting that follows it.\<close>

definition toggle_selection :: "string \<Rightarrow> nat \<Rightarrow> app \<Rightarrow> app" where
  "toggle_selection pid cardEl st =
     saveSelectedToStorage
       (if pid \<in> set (selectedProductIds st) then
          st\<lparr>selectedProductIds := set_delete pid (selectedProductIds st),
             productsContainer := map_option (on_cards (set_selected cardEl False)) (productsContainer st)\<rparr>
        else
          st\<lparr>selectedProductIds := set_add pid (selectedProductIds st),
             productsContainer := map_option (on_cards (set_selected cardEl True)) (productsContainer st)\<rparr>)"

definition find_card :: "app \<Rightarrow> nat \<Rightarrow> card option" where
  "find_card st el =
     (case productsContainer st of
        Some (Cards cs) \<Rightarrow> find (\<lambda>c. card_el c = el) cs
      | _ \<Rightarrow> None)"

definition card_click :: "error + product list \<Rightarrow> nat \<Rightarrow> app \<Rightarrow> error + app" where
  "card_click fetched el st =
     (case find_card st el of
        None \<Rightarrow> Inr st
      | Some hit \<Rightarrow>
          (let pid = data_product_id hit in
           if pid = [] then Inr st
           else
             (case loadProducts fetched (toggle_selection pid el st) of
                Inl e \<Rightarrow> Inl e
              | Inr (products, st1) \<Rightarrow>
                  (case find_strict products pid of
                     None \<Rightarrow> Inr st1
                   | Some product \<Rightarrow> showProductModal product el st1))))"

section \<open>Routine generation\<close>

text \<open>
  What the endpoint's response gives: \<open>text_body\<close> is what \<^verbatim>\<open>res.text()\<close> resolves to
  and \<open>json_body\<close> what \<^verbatim>\<open>res.json()\<close> resolves to (\<open>Inl\<close>: the promise is rejected).
  The outcome of \<^verbatim>\<open>fetch\<close> itself is \<open>Inl\<close> when the request fails.
\<close>

record response =
  ok :: bool
  status :: number
  statusText :: string
  text_body :: "error + string"
  json_body :: "error + json"

text \<open>
  \<^verbatim>\<open>data?.choices?.[0]?.message?.content ?? data?.choices?.[0]?.text ?? null\<close>. A value
  that is \<^verbatim>\<open>undefined\<close> is \<open>None\<close>; the keys of a parsed object are distinct.
\<close>

fun get_prop :: "string \<Rightarrow> json option \<Rightarrow> json option" where
  "get_prop k (Some (JObject kvs)) = map_of kvs k"
| "get_prop k v = None"

fun first_element :: "platform \<Rightarrow> json option \<Rightarrow> json option" where
  "first_element js (Some (JArray (x # xs))) = Some x"
| "first_element js (Some (JString (c # cs))) = Some (JString (first_code_unit js (c # cs)))"
| "first_element js (Some (JObject kvs)) = map_of kvs ''0''"
| "first_element js v = None"

definition nullish :: "json option \<Rightarrow> bool" where
  "nullish v = (v = None \<or> v = Some JNull)"

definition extract_text :: "platform \<Rightarrow> json \<Rightarrow> json option" where
  "extract_text js data =
     (let choice = first_element js (get_prop ''choices'' (Some data));
          content = get_prop ''content'' (get_prop ''message'' choice);
          alt = get_prop ''text'' choice
      in if \<not> nullish content then content
         else if \<not> nullish alt then alt
         else None)"

fun falsy :: "json \<Rightarrow> bool" where
  "falsy JNull = True"
| "falsy (JBool b) = (\<not> b)"
| "falsy (JNumber n) = (rendering n = ''0'')"
| "falsy (JString s) = (s = [])"
| "falsy (JArray xs) = False"
| "falsy (JObject kvs) = False"

definition dq :: string where
  "dq = [CHR 0x22]"

definition ellipsis :: string where
  "ellipsis = [CHR 0xE2, CHR 0x80, CHR 0xA6]"

definition pre_wrap :: "string \<Rightarrow> string" where
  "pre_wrap t = ''<div style='' @ dq @ ''white-space:pre-wrap'' @ dq @ ''>'' @ t @ ''</div>''"

definition select_message :: string where
  "select_message = ''<div>Please select at least one product before generating a routine.</div>''"

definition no_response_message :: string where
  "no_response_message = ''<div>No response from the API.</div>''"

definition api_error_message :: "number \<Rightarrow> string \<Rightarrow> string \<Rightarrow> string" where
  "api_error_message st_code st_text body =
     ''<div>API error: '' @ rendering st_code @ '' '' @ st_text @
     ''<pre style='' @ dq @ ''white-space:pre-wrap'' @ dq @ ''>'' @ body @ ''</pre></div>''"

definition request_failed_message :: "error \<Rightarrow> string" where
  "request_failed_message err = ''<div>Request failed: '' @ message err @ ''</div>''"

text \<open>The body of the \<^verbatim>\<open>try\<close> block, after \<^verbatim>\<open>fetch\<close>: the markup to show, or what is thrown.\<close>

definition try_block :: "platform \<Rightarrow> error + response \<Rightarrow> error + string" where
  "try_block js outcome =
     (case outcome of
        Inl e \<Rightarrow> Inl e
      | Inr res \<Rightarrow>
          if \<not> ok res then
            (case text_body res of
               Inl e \<Rightarrow> Inl e
             | Inr t \<Rightarrow> Inr (api_error_message (status res) (statusText res) t))
          else
            (case json_body res of
               Inl e \<Rightarrow> Inl e
             | Inr data \<Rightarrow>
                 (case extract_text js data of
                    None \<Rightarrow> Inr no_response_message
                  | Some aiText \<Rightarrow>
                      if falsy aiText then Inr no_response_message
                      else Inr (pre_wrap (String_json aiText)))))"

definition generation_request :: "string \<Rightarrow> product list \<Rightarrow> request" where
  "generation_request apiKey sel =
     \<lparr>url = ''https://spring-shape-150c.adebiyav.workers.dev/'',
      authorization = ''Bearer '' @ apiKey, payload = sel\<rparr>"

text \<open>
  \<^verbatim>\<open>generateRoutine\<close>; \<open>outcome\<close> is what the one \<^verbatim>\<open>fetch\<close> of the remote mode gives. The
  result is the state when the function has finished; \<open>Inl\<close> is an exception that leaves
  it. The local builder runs outside the \<^verbatim>\<open>try\<close> block.
\<close>

definition generateRoutine :: "platform \<Rightarrow> error + response \<Rightarrow> app \<Rightarrow> error + app" where
  "generateRoutine js outcome st =
     (case chatWindow st of
        None \<Rightarrow> Inr st
      | Some w \<Rightarrow>
          (let sel = getSelectedProductsData st in
           if sel = [] then Inr (st\<lparr>chatWindow := Some select_message\<rparr>)
           else
             (let apiKey = or_else (OPENAI_API_KEY st) [] in
              if apiKey = [] then
                (case buildLocalRoutine js sel of
                   Inl e \<Rightarrow> Inl e
                 | Inr localText \<Rightarrow> Inr (st\<lparr>chatWindow := Some (pre_wrap localText)\<rparr>))
              else
                (let st1 = st\<lparr>chatWindow := Some (''<div>Generating routine'' @ ellipsis @ ''</div>''),
                              requests := requests st @ [generation_request apiKey sel]\<rparr>
                 in case try_block js outcome of
                      Inl err \<Rightarrow> Inr (st1\<lparr>chatWindow := Some (request_failed_message err)\<rparr>)
                    | Inr markup \<Rightarrow> Inr (st1\<lparr>chatWindow := Some markup\<rparr>)))))"

section \<open>The specification's reading of the routine\<close>

text \<open>
  The routine as the specification words it. The key of a product's bucket is its
  category (\<^verbatim>\<open>other\<close> when it has none), trimmed and lower-cased:
\<close>

definition bucket_key :: "platform \<Rightarrow> product \<Rightarrow> string" where
  "bucket_key js p =
     toLowerCase js
       (trim js (case category p of
                   None \<Rightarrow> ''other''
                 | Some c \<Rightarrow> if c = [] then ''other'' else c))"

text \<open>The products of one bucket, in selection order.\<close>

definition bucket_of :: "platform \<Rightarrow> string \<Rightarrow> product list \<Rightarrow> product list" where
  "bucket_of js c ps = filter (\<lambda>p. bucket_key js p = c) ps"

text \<open>The elements of a list in the order of their first occurrence.\<close>

definition first_seen :: "'a list \<Rightarrow> 'a list" where
  "first_seen xs = rev (remdups (rev xs))"

text \<open>The categories outside the priority list, in first-encountered order.\<close>

definition other_categories :: "platform \<Rightarrow> product list \<Rightarrow> string list" where
  "other_categories js ps = filter (\<lambda>c. c \<notin> set order) (first_seen (map (bucket_key js) ps))"

text \<open>
  The same categories as the code walks them: those that are array indices first, in
  ascending numeric order, then the others in first-encountered order.
\<close>

definition keys_order :: "string list \<Rightarrow> string list" where
  "keys_order cs =
     sort_key digits_value (filter is_array_index cs) @ filter (\<lambda>k. \<not> is_array_index k) cs"

text \<open>
  The line of a step without its number: the name of the product and the rationale, for
  a category of the priority list and for another category.
\<close>

definition brand_text :: "product \<Rightarrow> string" where
  "brand_text p = (case brand p of None \<Rightarrow> ''brand'' | Some b \<Rightarrow> if b = [] then ''brand'' else b)"

definition priority_line :: "string \<Rightarrow> product \<Rightarrow> string" where
  "priority_line c p =
     name p @ '' '' @ em_dash @ '' Use '' @ name p @ '' ('' @ brand_text p @ '') as a '' @ c @ ''.''"

definition other_line :: "string \<Rightarrow> product \<Rightarrow> string" where
  "other_line c p =
     name p @ '' '' @ em_dash @ '' Use '' @ name p @ '' ('' @ brand_text p @ '') in the '' @ c @
     '' step.''"

text \<open>
  The lines: the priority list first, one line per product of each bucket, then the
  buckets of the categories \<open>others\<close>, in the order given.
\<close>

definition lines_in :: "platform \<Rightarrow> string list \<Rightarrow> product list \<Rightarrow> string list" where
  "lines_in js others ps =
     concat (map (\<lambda>c. map (priority_line c) (bucket_of js c ps)) order) @
     concat (map (\<lambda>c. map (other_line c) (bucket_of js c ps)) others)"

definition numbered :: "string list \<Rightarrow> string list" where
  "numbered ls = map (\<lambda>(i, l). show_nat (Suc i) @ ''. '' @ l) (enumerate 0 ls)"

text \<open>The numbered lines under the heading, closed by the precaution sentence.\<close>

definition routine_text :: "string list \<Rightarrow> string" where
  "routine_text ls =
     join newline
       ([''Recommended routine based on selected products:'', []] @ numbered ls @
        [[], ''Short precautions: Patch test new products and avoid mixing strong actives.''])"

text \<open>The buckets after the first loop, for the keys \<open>ks\<close>.\<close>

definition grouped :: "platform \<Rightarrow> string list \<Rightarrow> product list \<Rightarrow> buckets" where
  "grouped js ks ps = map (\<lambda>c. (c, bucket_of js c ps)) ks"

text \<open>The steps of the builder when it walks the other buckets in the order \<open>others\<close>.\<close>

definition steps_in :: "platform \<Rightarrow> string list \<Rightarrow> product list \<Rightarrow> step list" where
  "steps_in js others ps =
     concat (map (\<lambda>c. map (ordered_step c) (bucket_of js c ps)) order) @
     concat (map (\<lambda>c. map (remaining_step c) (bucket_of js c ps)) others)"

text \<open>The line of a step of the builder, without its number.\<close>

definition step_text :: "step \<Rightarrow> string" where
  "step_text s = step_name s @ '' '' @ em_dash @ '' '' @ step_reason s"

text \<open>No bucket key is a name that a plain object inherits.\<close>

definition own_categories :: "platform \<Rightarrow> product list \<Rightarrow> bool" where
  "own_categories js ps = list_all (\<lambda>p. bucket_key js p \<notin> set inherited_names) ps"

section \<open>Example inputs\<close>

text \<open>
  A platform for the examples, which are ASCII. On an ASCII string \<^verbatim>\<open>trim\<close> strips the
  six ASCII white-space characters from both ends, \<^verbatim>\<open>toLowerCase\<close> maps the letters A to
  Z, and the first code unit is the first character.
\<close>

definition ascii_space :: "char \<Rightarrow> bool" where
  "ascii_space c = (c \<in> set [CHR 0x09, CHR 0x0A, CHR 0x0B, CHR 0x0C, CHR 0x0D, CHR 0x20])"

definition ascii_trim :: "string \<Rightarrow> string" where
  "ascii_trim s = rev (dropWhile ascii_space (rev (dropWhile ascii_space s)))"

definition ascii_lower :: "char \<Rightarrow> char" where
  "ascii_lower c =
     (case map_of (zip ''ABCDEFGHIJKLMNOPQRSTUVWXYZ'' ''abcdefghijklmnopqrstuvwxyz'') c of
        Some l \<Rightarrow> l
      | None \<Rightarrow> c)"

definition ascii :: platform where
  "ascii = \<lparr>trim = ascii_trim, toLowerCase = map ascii_lower, first_code_unit = take 1\<rparr>"

definition item :: "ident option \<Rightarrow> string \<Rightarrow> string \<Rightarrow> product" where
  "item i n c =
     \<lparr>ident = i, name = n, brand = None, category = Some c, description = None, image = None\<rparr>"

text \<open>The catalog of the specification's scenario: numeric identifiers 1 and 2.\<close>

definition product_A :: product where
  "product_A = item (Some (NumId (Number ''1''))) ''A'' ''Cleanser''"

definition product_B :: product where
  "product_B = item (Some (NumId (Number ''2''))) ''B'' ''Serum''"

definition catalog :: "product list" where
  "catalog = [product_A, product_B]"

definition empty_storage :: storage where
  "empty_storage = \<lparr>items = Map.empty, blocked = False, full = False\<rparr>"

text \<open>
  A page before \<^verbatim>\<open>init\<close>: every element is present, the category control shows its empty
  default option, nothing is selected or stored, no credential is configured.
\<close>

definition page :: app where
  "page =
     \<lparr>selectedProductIds = [], allProductsCache = None, localStorage = empty_storage,
      categoryFilter = Some \<lparr>select_value = [], selected_option_text = None\<rparr>,
      searchInput = Some [], productsContainer = Some (Cards []), chatWindow = Some [],
      OPENAI_API_KEY = None, overlays = [], keydown_listeners = [], next_el = 0,
      requests = []\<rparr>"

text \<open>The page with the catalog loaded and both products on display.\<close>

definition grid :: app where
  "grid =
     page\<lparr>allProductsCache := Some catalog,
          productsContainer := Some (Cards [render_card [] 0 product_A, render_card [] 1 product_B]),
          next_el := 2\<rparr>"

text \<open>Selections for the routine builder: the first mixes priority and other
  categories and has a product without a category, the second has two categories named
  by numerals.\<close>

definition mixed_selection :: "product list" where
  "mixed_selection =
     [item None ''S'' ''Sunscreen '', item None ''U'' ''unknown'',
      \<lparr>ident = None, name = ''N'', brand = Some ''Acme'', category = None, description = None,
       image = None\<rparr>,
      item None ''C'' '' cleanser'', item None ''V'' ''Unknown'']"

definition numeral_selection :: "product list" where
  "numeral_selection = [item None ''T'' ''2'', item None ''O'' ''1'']"

text \<open>
  The grid with a selection of which two identifiers are in the catalog and two are
  not, and with a selection of which none is: \<^verbatim>\<open>A\<close> is the name of a product whose
  identifier is 1.
\<close>

definition partly_stale :: app where
  "partly_stale = grid\<lparr>selectedProductIds := [''nope'', ''2'', ''zzz'', ''1'']\<rparr>"

definition all_stale :: app where
  "all_stale = grid\<lparr>selectedProductIds := [''nope'', ''A'']\<rparr>"

text \<open>The grid with both products selected and a credential configured.\<close>

definition remote_grid :: app where
  "remote_grid = grid\<lparr>selectedProductIds := [''2'', ''1''], OPENAI_API_KEY := Some ''sk-test''\<rparr>"

text \<open>Three outcomes of the request: no connection, a success whose body is not JSON,
  and a refusal by the server.\<close>

definition network_failure :: "error + response" where
  "network_failure = Inl (TypeError ''Failed to fetch'')"

definition unparsable_success :: "error + response" where
  "unparsable_success =
     Inr \<lparr>ok = True, status = Number ''200'', statusText = ''OK'', text_body = Inr ''<html>'',
          json_body = Inl (SyntaxError ''Unexpected token'')\<rparr>"

definition server_refusal :: "error + response" where
  "server_refusal =
     Inr \<lparr>ok = False, status = Number ''401'', statusText = ''Unauthorized'', text_body = Inr ''bad key'',
          json_body = Inl (SyntaxError ''Unexpected token'')\<rparr>"

section \<open>The local routine builder: grouping and order\<close>

lemma normalized_category_key: "normalized_category js p = bucket_key js p"
  by (simp add: normalized_category_def bucket_key_def or_else_def split: option.splits)

lemma first_seen_snoc:
  "first_seen (xs @ [x]) = (if x \<in> set xs then first_seen xs else first_seen xs @ [x])"
  by (simp add: first_seen_def)

lemma set_first_seen [simp]: "set (first_seen xs) = set xs"
  by (simp add: first_seen_def)

lemma first_seen_Nil [simp]: "first_seen [] = []"
  by (simp add: first_seen_def)

lemma map_of_grouped:
  "map_of (grouped js ks ps) c = (if c \<in> set ks then Some (bucket_of js c ps) else None)"
  by (induction ks) (auto simp: grouped_def)

lemma push_grouped_seen:
  "push_bucket (grouped js ks seen) (bucket_key js p) p = grouped js ks (seen @ [p])"
  by (auto simp: push_bucket_def grouped_def bucket_of_def)

lemma bucket_of_unseen:
  "c \<notin> bucket_key js ` set ps \<Longrightarrow> bucket_of js c ps = []"
  by (auto simp: bucket_of_def filter_empty_conv)

text \<open>One pass of the first loop keeps the buckets grouped.\<close>

lemma group_product_grouped:
  assumes "bucket_key js p \<notin> set inherited_names"
  shows "group_product js (grouped js (first_seen (map (bucket_key js) seen)) seen) p =
         Inr (grouped js (first_seen (map (bucket_key js) (seen @ [p]))) (seen @ [p]))"
proof (cases "bucket_key js p \<in> bucket_key js ` set seen")
  case True
  then show ?thesis
    by (simp add: group_product_def normalized_category_key get_bucket_def map_of_grouped
          first_seen_snoc push_grouped_seen)
next
  case False
  have "push_bucket (grouped js (first_seen (map (bucket_key js) seen)) seen @ [(bucket_key js p, [])])
          (bucket_key js p) p =
        grouped js (first_seen (map (bucket_key js) seen) @ [bucket_key js p]) (seen @ [p])"
    using False bucket_of_unseen[OF False]
    by (auto simp: push_bucket_def grouped_def bucket_of_def)
  with False assms show ?thesis
    by (simp add: group_product_def normalized_category_key get_bucket_def map_of_grouped
          first_seen_snoc)
qed

lemma group_products_grouped:
  "own_categories js ps \<Longrightarrow>
   group_products js ps (grouped js (first_seen (map (bucket_key js) seen)) seen) =
   Inr (grouped js (first_seen (map (bucket_key js) (seen @ ps))) (seen @ ps))"
proof (induction ps arbitrary: seen)
  case Nil
  then show ?case by simp
next
  case (Cons p ps)
  from Cons.prems have p: "bucket_key js p \<notin> set inherited_names"
    and ps: "own_categories js ps"
    by (simp_all add: own_categories_def)
  show ?case
    using Cons.IH[OF ps, of "seen @ [p]"] group_product_grouped[OF p, of seen]
    by simp
qed

lemma delete_grouped:
  "delete_bucket (grouped js ks ps) cat = grouped js (filter (\<lambda>k. k \<noteq> cat) ks) ps"
  by (induction ks) (auto simp: delete_bucket_def grouped_def)

text \<open>The second loop takes the buckets of the priority list, in its order, and
  leaves the others.\<close>

lemma ordered_steps_grouped:
  "distinct cats \<Longrightarrow> set cats \<inter> set inherited_names = {} \<Longrightarrow>
   list_all (\<lambda>k. bucket_of js k ps \<noteq> []) ks \<Longrightarrow>
   ordered_steps cats (grouped js ks ps) steps =
   Inr (grouped js (filter (\<lambda>k. k \<notin> set cats) ks) ps,
        steps @ concat (map (\<lambda>c. map (ordered_step c) (bucket_of js c ps))
                         (filter (\<lambda>c. c \<in> set ks) cats)))"
proof (induction cats arbitrary: ks steps)
  case Nil
  then show ?case by simp
next
  case (Cons cat cats)
  from Cons.prems have d: "distinct cats" and nc: "set cats \<inter> set inherited_names = {}"
    and c: "cat \<notin> set cats" "cat \<notin> set inherited_names"
    by auto
  show ?case
  proof (cases "cat \<in> set ks")
    case True
    let ?ks = "filter (\<lambda>k. k \<noteq> cat) ks"
    have ne: "bucket_of js cat ps \<noteq> []"
      using True Cons.prems(3) by (simp add: list_all_iff)
    have all: "list_all (\<lambda>k. bucket_of js k ps \<noteq> []) ?ks"
      using Cons.prems(3) by (simp add: list_all_iff)
    have f1: "filter (\<lambda>k. k \<notin> set cats) ?ks = filter (\<lambda>k. k \<notin> set (cat # cats)) ks"
      by (induction ks) auto
    have f2: "filter (\<lambda>c. c \<in> set ?ks) cats = filter (\<lambda>c. c \<in> set ks) cats"
      using c(1) by (induction cats) auto
    show ?thesis
      using Cons.IH[OF d nc all, of "steps @ map (ordered_step cat) (bucket_of js cat ps)"]
        True ne f1 f2
      by (simp add: get_bucket_def map_of_grouped delete_grouped)
  next
    case False
    have f1: "filter (\<lambda>k. k \<notin> set cats) ks = filter (\<lambda>k. k \<notin> set (cat # cats)) ks"
      using False by (induction ks) auto
    show ?thesis
      using Cons.IH[OF d nc Cons.prems(3), of steps] False c(2) f1
      by (simp add: get_bucket_def map_of_grouped)
  qed
qed

text \<open>The third loop walks the remaining buckets in the order of \<^verbatim>\<open>Object.keys\<close>.\<close>

lemma remaining_steps_grouped:
  "remaining_steps (grouped js ks ps) =
   concat (map (\<lambda>c. map (remaining_step c) (bucket_of js c ps)) (keys_order ks))"
proof -
  have keys: "map fst (grouped js ks ps) = ks"
    by (simp add: grouped_def comp_def)
  have "\<And>c. c \<in> set (keys_order ks) \<Longrightarrow> map_of (grouped js ks ps) c = Some (bucket_of js c ps)"
    by (auto simp: keys_order_def map_of_grouped)
  then show ?thesis
    by (simp add: remaining_steps_def object_keys_def keys keys_order_def[symmetric] cong: map_cong)
qed

text \<open>No name of the priority list is inherited by a plain object.\<close>

lemma order_facts: "distinct order" "set order \<inter> set inherited_names = {}"
  by (simp_all add: order_def inherited_names_def)

lemma concat_map_filter_nonempty:
  "concat (map f (filter (\<lambda>c. f c \<noteq> []) cs)) = concat (map f cs)"
  by (induction cs) auto

lemma ordered_part:
  "concat (map (\<lambda>c. map (ordered_step c) (bucket_of js c ps))
             (filter (\<lambda>c. c \<in> bucket_key js ` set ps) order)) =
   concat (map (\<lambda>c. map (ordered_step c) (bucket_of js c ps)) order)"
proof -
  have "filter (\<lambda>c. c \<in> bucket_key js ` set ps) order =
        filter (\<lambda>c. map (ordered_step c) (bucket_of js c ps) \<noteq> []) order"
    by (rule filter_cong) (auto simp: bucket_of_def filter_empty_conv)
  then show ?thesis
    by (simp only: concat_map_filter_nonempty)
qed

lemma set_keys_order [simp]: "set (keys_order cs) = set cs"
  by (auto simp: keys_order_def)

lemma steps_in_nonempty:
  assumes "ps \<noteq> []" "set others = {c \<in> bucket_key js ` set ps. c \<notin> set order}"
  shows "steps_in js others ps \<noteq> []"
proof -
  obtain p where p: "p \<in> set ps"
    using assms(1) by (cases ps) auto
  let ?c = "bucket_key js p"
  have ne: "bucket_of js ?c ps \<noteq> []"
    using p by (auto simp: bucket_of_def filter_empty_conv)
  show ?thesis
  proof (cases "?c \<in> set order")
    case True
    with ne show ?thesis by (auto simp: steps_in_def)
  next
    case False
    with p assms(2) have "?c \<in> set others" by auto
    with ne show ?thesis by (auto simp: steps_in_def)
  qed
qed

lemma enumerate_map: "enumerate n (map f xs) = map (\<lambda>(i, x). (i, f x)) (enumerate n xs)"
  by (induction xs arbitrary: n) auto

lemma numbered_lines:
  "map (\<lambda>(i, s). step_line i s) (enumerate 0 steps) = numbered (map step_text steps)"
  by (simp add: numbered_def step_line_def step_text_def enumerate_map comp_def case_prod_beta)

lemma format_routine_text:
  "steps \<noteq> [] \<Longrightarrow> format_routine steps = routine_text (map step_text steps)"
  unfolding format_routine_def routine_text_def numbered_lines by simp

text \<open>The lines of the steps are those of the specification.\<close>

lemma or_else_brand: "or_else (brand p) ''brand'' = brand_text p"
  by (simp add: or_else_def brand_text_def)

lemma step_text_ordered: "step_text (ordered_step c p) = priority_line c p"
  by (simp add: step_text_def ordered_step_def priority_line_def or_else_brand)

lemma step_text_remaining: "step_text (remaining_step c p) = other_line c p"
  by (simp add: step_text_def remaining_step_def other_line_def or_else_brand)

lemma lines_of_steps: "map step_text (steps_in js others ps) = lines_in js others ps"
  by (simp add: steps_in_def lines_in_def map_concat comp_def step_text_ordered
        step_text_remaining)

lemma buildLocalRoutine_steps:
  assumes "own_categories js ps"
  shows "buildLocalRoutine js ps =
         Inr (format_routine (steps_in js (keys_order (other_categories js ps)) ps))"
proof -
  let ?ks = "first_seen (map (bucket_key js) ps)"
  have g: "group_products js ps [] = Inr (grouped js ?ks ps)"
    using group_products_grouped[OF assms, of "[]"] by (simp add: grouped_def)
  have all: "list_all (\<lambda>k. bucket_of js k ps \<noteq> []) ?ks"
    by (auto simp: list_all_iff bucket_of_def filter_empty_conv)
  have o: "ordered_steps order (grouped js ?ks ps) [] =
           Inr (grouped js (other_categories js ps) ps,
                concat (map (\<lambda>c. map (ordered_step c) (bucket_of js c ps)) order))"
    using ordered_steps_grouped[OF order_facts all, of "[]"] ordered_part[of js ps]
    by (simp add: other_categories_def)
  show ?thesis
    by (simp add: buildLocalRoutine_def g o remaining_steps_grouped steps_in_def)
qed

text \<open>
  C1, as amended. For every list of selected products of which no bucket key is a name
  that a plain object inherits (of a lower-cased category: \<^verbatim>\<open>constructor\<close> or
  \<^verbatim>\<open>__proto__\<close>), and whatever \<^verbatim>\<open>trim\<close> and \<^verbatim>\<open>toLowerCase\<close> do: the builder buckets the
  products by lower-cased trimmed category and emits the steps of the priority list
  cleanser, exfoliant, toner, essence, serum, eye, moisturizer, oil, sunscreen in that
  order, one step per product in selection order within a bucket; then the buckets of
  the other categories, those named by an array index first in ascending numeric order,
  the rest in first-encountered order. The output is the numbered lines closed by the
  precaution sentence, and the fixed message for an empty list.
\<close>

theorem buildLocalRoutine_order:
  assumes "own_categories js ps"
  shows "buildLocalRoutine js ps =
         Inr (if ps = [] then ''No products selected to build a routine.''
              else routine_text (lines_in js (keys_order (other_categories js ps)) ps))"
proof (cases "ps = []")
  case True
  then show ?thesis
    by (simp add: buildLocalRoutine_def order_def get_bucket_def inherited_names_def
          format_routine_def remaining_steps_def object_keys_def)
next
  case False
  have "set (keys_order (other_categories js ps)) = {c \<in> bucket_key js ` set ps. c \<notin> set order}"
    by (auto simp: other_categories_def)
  from steps_in_nonempty[OF False this]
  have "format_routine (steps_in js (keys_order (other_categories js ps)) ps) =
        routine_text (map step_text (steps_in js (keys_order (other_categories js ps)) ps))"
    by (rule format_routine_text)
  then have "buildLocalRoutine js ps =
             Inr (routine_text (lines_in js (keys_order (other_categories js ps)) ps))"
    unfolding buildLocalRoutine_steps[OF assms] lines_of_steps by simp
  with False show ?thesis by simp
qed

theorem buildLocalRoutine_order_witness:
  "own_categories ascii mixed_selection \<and>
   buildLocalRoutine ascii mixed_selection =
   Inr (''Recommended routine based on selected products:'' @ newline @ newline @
        ''1. C '' @ em_dash @ '' Use C (brand) as a cleanser.'' @ newline @
        ''2. S '' @ em_dash @ '' Use S (brand) as a sunscreen.'' @ newline @
        ''3. U '' @ em_dash @ '' Use U (brand) in the unknown step.'' @ newline @
        ''4. V '' @ em_dash @ '' Use V (brand) in the unknown step.'' @ newline @
        ''5. N '' @ em_dash @ '' Use N (Acme) in the other step.'' @ newline @ newline @
        ''Short precautions: Patch test new products and avoid mixing strong actives.'')"
proof -
  have h: "own_categories ascii mixed_selection"
    by code_simp
  have r: "(if mixed_selection = [] then ''No products selected to build a routine.''
            else routine_text
                   (lines_in ascii (keys_order (other_categories ascii mixed_selection))
                      mixed_selection)) =
           ''Recommended routine based on selected products:'' @ newline @ newline @
           ''1. C '' @ em_dash @ '' Use C (brand) as a cleanser.'' @ newline @
           ''2. S '' @ em_dash @ '' Use S (brand) as a sunscreen.'' @ newline @
           ''3. U '' @ em_dash @ '' Use U (brand) in the unknown step.'' @ newline @
           ''4. V '' @ em_dash @ '' Use V (brand) in the unknown step.'' @ newline @
           ''5. N '' @ em_dash @ '' Use N (Acme) in the other step.'' @ newline @ newline @
           ''Short precautions: Patch test new products and avoid mixing strong actives.''"
    by code_simp
  show ?thesis
    using h buildLocalRoutine_order[OF h] unfolding r by simp
qed

text \<open>
  C1 as stated fails: with the categories \<^verbatim>\<open>2\<close> and \<^verbatim>\<open>1\<close> selected in this order, the
  routine in first-encountered order lists T before O, and the builder lists O first.
\<close>

theorem buildLocalRoutine_first_seen_counterexample:
  "buildLocalRoutine ascii numeral_selection \<noteq>
   Inr (routine_text (lines_in ascii (other_categories ascii numeral_selection) numeral_selection))"
  by code_simp

section \<open>The detail overlay\<close>

lemma closeModal_overlays_length:
  "length (overlays (closeModal ov st)) \<le> length (overlays st)"
  by (simp add: closeModal_def)

lemma escape_overlays_length:
  "length (overlays (foldl (\<lambda>s ov. closeModal ov s) st ls)) \<le> length (overlays st)"
proof (induction ls arbitrary: st)
  case Nil
  then show ?case by simp
next
  case (Cons l ls)
  have "length (overlays (foldl (\<lambda>s ov. closeModal ov s) (closeModal l st) ls))
        \<le> length (overlays (closeModal l st))"
    by (rule Cons.IH)
  also have "\<dots> \<le> length (overlays st)"
    by (rule closeModal_overlays_length)
  finally show ?case by simp
qed

lemma showProductModal_one_overlay:
  "showProductModal p c st = Inr s \<Longrightarrow> length (overlays st) \<le> 1 \<Longrightarrow> length (overlays s) = 1"
  by (auto simp: showProductModal_def clearHighlights_def Let_def split: option.splits list.splits)

lemma overlay_step_at_most_one:
  "length (overlays st) \<le> 1 \<Longrightarrow> length (overlays (overlay_step st op)) \<le> 1"
proof (cases op)
  case (OpenOverlay p c)
  assume "length (overlays st) \<le> 1"
  then show ?thesis
    using OpenOverlay showProductModal_one_overlay[of p c st]
    by (cases "showProductModal p c st") auto
next
  case CloseDisplayed
  assume "length (overlays st) \<le> 1"
  then show ?thesis
    using CloseDisplayed closeModal_overlays_length[of _ st]
    by (auto split: list.splits intro: le_trans)
next
  case PressEscape
  assume "length (overlays st) \<le> 1"
  then show ?thesis
    using PressEscape escape_overlays_length[of st "keydown_listeners st"]
    by (simp add: press_escape_def)
next
  case CloseExisting
  assume "length (overlays st) \<le> 1"
  then show ?thesis
    using CloseExisting closeModal_overlays_length[of _ st]
    by (auto simp: closeExistingModal_def split: list.splits intro: le_trans)
qed

text \<open>At most one overlay is in the document, whatever is opened and closed.\<close>

lemma at_most_one_overlay:
  "length (overlays st) \<le> 1 \<Longrightarrow> length (overlays (run_overlay_ops st ops)) \<le> 1"
  unfolding run_overlay_ops_def
proof (induction ops arbitrary: st)
  case Nil
  then show ?case by simp
next
  case (Cons op ops)
  have "length (overlays (overlay_step st op)) \<le> 1"
    using Cons.prems by (rule overlay_step_at_most_one)
  then have "length (overlays (foldl overlay_step (overlay_step st op) ops)) \<le> 1"
    by (rule Cons.IH)
  then show ?case by simp
qed

text \<open>Opening an overlay removes no listener from the document.\<close>

lemma showProductModal_keeps_listeners:
  "showProductModal p c st = Inr s \<Longrightarrow> keydown_listeners s = keydown_listeners st @ [last (overlays s)]"
  by (auto simp: showProductModal_def clearHighlights_def Let_def split: option.splits)

text \<open>
  C2 at the input where the code departs from it. The overlay of product B is open
  (element 2) and the overlay of product A is opened: one overlay is in the document
  (element 3), and the \<^verbatim>\<open>keydown\<close> listener of the replaced overlay is still
  registered. When \<^verbatim>\<open>closeExistingModal\<close> runs in between, no listener is left over.
\<close>

theorem showProductModal_keeps_old_listener:
  "map overlay_el (overlays (run_overlay_ops grid [OpenOverlay product_B 1, OpenOverlay product_A 0])) = [3] \<and>
   map overlay_el (keydown_listeners (run_overlay_ops grid [OpenOverlay product_B 1, OpenOverlay product_A 0])) = [2, 3] \<and>
   map overlay_el (leaked_listeners (run_overlay_ops grid [OpenOverlay product_B 1, OpenOverlay product_A 0])) = [2] \<and>
   leaked_listeners (run_overlay_ops grid [OpenOverlay product_B 1, CloseExisting, OpenOverlay product_A 0]) = []"
  by code_simp

section \<open>Filters and the initial load\<close>

lemma clearHighlights_frame:
  "clearHighlights st = Inr s \<Longrightarrow>
   categoryFilter s = categoryFilter st \<and> searchInput s = searchInput st \<and>
   allProductsCache s = allProductsCache st \<and> productsContainer s \<noteq> None"
  by (auto simp: clearHighlights_def split: option.splits)

lemma closeExistingModal_frame:
  "categoryFilter (closeExistingModal st) = categoryFilter st \<and>
   searchInput (closeExistingModal st) = searchInput st \<and>
   allProductsCache (closeExistingModal st) = allProductsCache st"
  by (simp add: closeExistingModal_def closeModal_def split: list.splits)

lemma loadProducts_frame:
  "loadProducts fetched st = Inr (ps, s) \<Longrightarrow>
   categoryFilter s = categoryFilter st \<and> searchInput s = searchInput st \<and>
   productsContainer s = productsContainer st"
  by (auto simp: loadProducts_def split: option.splits sum.splits)

text \<open>When the filters change and both terms are empty, the placeholder is shown.\<close>

lemma applyFilters_placeholder:
  assumes "applyFilters js fetched st = Inr s"
    and "selected_category js (categoryFilter st) = []" "search_term js (searchInput st) = []"
  shows "productsContainer s = Some SelectCategoryPlaceholder"
proof -
  from assms(1) obtain st1 where c: "clearHighlights (closeExistingModal st) = Inr st1"
    by (auto simp: applyFilters_def split: sum.splits)
  with assms(1) obtain ps st2 where l: "loadProducts fetched st1 = Inr (ps, st2)"
    by (auto simp: applyFilters_def split: sum.splits)
  have eq: "categoryFilter st2 = categoryFilter st" "searchInput st2 = searchInput st"
    "productsContainer st2 \<noteq> None"
    using clearHighlights_frame[OF c] closeExistingModal_frame[of st] loadProducts_frame[OF l]
    by simp_all
  show ?thesis
    using assms c l eq by (auto simp: applyFilters_def Let_def)
qed

text \<open>
  C3 at the input where the code departs from it. The page has no category chosen and
  an empty search input, and the catalog is the two products A and B. When \<^verbatim>\<open>init\<close> has
  finished the container holds a card for every product of the catalog; on the same
  page \<^verbatim>\<open>applyFilters\<close> shows the placeholder.
\<close>

theorem init_renders_full_catalog:
  "(case init (Inr catalog) page of Inl e \<Rightarrow> None | Inr s \<Rightarrow> productsContainer s) =
     Some (Cards [render_card [] 0 product_A, render_card [] 1 product_B]) \<and>
   (case applyFilters ascii (Inr catalog) page of Inl e \<Rightarrow> None | Inr s \<Rightarrow> productsContainer s) =
     Some SelectCategoryPlaceholder"
  by code_simp

section \<open>Identifiers\<close>

text \<open>
  C4 at the input where the code departs from it. Product A has the numeric identifier
  1, its card carries the attribute \<^verbatim>\<open>1\<close>. The selection materializer finds the product
  for the selected identifier, the click handler does not and opens no overlay, and the
  grid does not mark the card of the selected product.
\<close>

theorem click_lookup_misses_numeric_id:
  "data_product_id (render_card [] 0 product_A) = ''1'' \<and>
   find_by_string catalog ''1'' = Some product_A \<and>
   find_strict catalog ''1'' = None \<and>
   (case card_click (Inr catalog) 0 grid of Inl e \<Rightarrow> None
    | Inr s \<Rightarrow> Some (selectedProductIds s, overlays s)) = Some ([''1''], []) \<and>
   selected (render_card [''1''] 0 product_A) = False"
  by code_simp

section \<open>The selection set and its persistence\<close>

lemma saveSelectedToStorage_selection [simp]:
  "selectedProductIds (saveSelectedToStorage st) = selectedProductIds st"
  by (simp add: saveSelectedToStorage_def split: sum.splits)

lemma add_strings:
  "set (foldl (\<lambda>acc i. set_add (String_json i) acc) acc (map JString xs)) = set acc \<union> set xs"
  by (induction xs arbitrary: acc) (auto simp: set_add_def)

lemma set_add_distinct: "distinct xs \<Longrightarrow> distinct (set_add x xs)"
  by (simp add: set_add_def)

lemma add_parsed_distinct: "distinct acc \<Longrightarrow> distinct (add_parsed j acc)"
proof (cases j)
  case (JArray arr)
  assume "distinct acc"
  then have "distinct (foldl (\<lambda>acc i. set_add (String_json i) acc) acc arr)"
    by (induction arr arbitrary: acc) (simp_all add: set_add_distinct)
  with JArray show ?thesis by simp
qed simp_all

text \<open>
  C5. For every selection set, on a storage that takes the write: persisting stores the
  JSON array of the members, each a string, and restoring from that storage into an
  empty selection set gives a set with the same members.
\<close>

theorem persist_restore_roundtrip:
  assumes "\<not> blocked (localStorage st)" "\<not> full (localStorage st)"
  shows "items (localStorage (saveSelectedToStorage st)) ''selectedProductIds'' =
           Some (Document (JArray (map JString (selectedProductIds st)))) \<and>
         set (selectedProductIds
               (loadSelectedFromStorage ((saveSelectedToStorage st)\<lparr>selectedProductIds := []\<rparr>))) =
           set (selectedProductIds st) \<and>
         distinct (selectedProductIds
               (loadSelectedFromStorage ((saveSelectedToStorage st)\<lparr>selectedProductIds := []\<rparr>)))"
proof -
  let ?doc = "Document (JArray (map JString (selectedProductIds st)))"
  have saved: "localStorage (saveSelectedToStorage st) =
               (localStorage st)\<lparr>items := (items (localStorage st))(''selectedProductIds'' \<mapsto> ?doc)\<rparr>"
    using assms by (simp add: saveSelectedToStorage_def setItem_def JSON_stringify_def)
  have restored: "selectedProductIds
          (loadSelectedFromStorage ((saveSelectedToStorage st)\<lparr>selectedProductIds := []\<rparr>)) =
        add_parsed (JArray (map JString (selectedProductIds st))) []"
    using assms by (simp add: loadSelectedFromStorage_def getItem_def saved)
  show ?thesis
    using add_parsed_distinct[of "[]" "JArray (map JString (selectedProductIds st))"]
    by (simp add: saved restored add_strings del: add_parsed.simps)
      (simp add: add_strings)
qed

theorem persist_restore_roundtrip_witness:
  "\<not> blocked (localStorage (page\<lparr>selectedProductIds := [''2'', ''1'']\<rparr>)) \<and>
   \<not> full (localStorage (page\<lparr>selectedProductIds := [''2'', ''1'']\<rparr>)) \<and>
   set (selectedProductIds
         (loadSelectedFromStorage
           ((saveSelectedToStorage (page\<lparr>selectedProductIds := [''2'', ''1'']\<rparr>))\<lparr>selectedProductIds := []\<rparr>))) =
     {''1'', ''2''}"
proof -
  have b: "\<not> blocked (localStorage (page\<lparr>selectedProductIds := [''2'', ''1'']\<rparr>))"
    by (simp add: page_def empty_storage_def)
  have f: "\<not> full (localStorage (page\<lparr>selectedProductIds := [''2'', ''1'']\<rparr>))"
    by (simp add: page_def empty_storage_def)
  show ?thesis
    using b f persist_restore_roundtrip[OF b f] by auto
qed

text \<open>
  C6. For every identifier and every state of the selection set: one toggle removes the
  identifier when it is a member and adds it when it is not, and two toggles in
  succession give back the original membership.
\<close>

theorem toggle_selection_twice:
  "set (selectedProductIds (toggle_selection pid c st)) =
     (if pid \<in> set (selectedProductIds st) then set (selectedProductIds st) - {pid}
      else insert pid (set (selectedProductIds st))) \<and>
   set (selectedProductIds (toggle_selection pid c' (toggle_selection pid c st))) =
     set (selectedProductIds st)"
  by (auto simp: toggle_selection_def set_add_def set_delete_def)

theorem toggle_selection_twice_witness:
  "set (selectedProductIds (toggle_selection ''1'' 0 grid)) = {''1''} \<and>
   set (selectedProductIds (toggle_selection ''1'' 0 (toggle_selection ''1'' 0 grid))) = {}"
proof -
  have "selectedProductIds grid = []"
    by (simp add: grid_def page_def)
  then show ?thesis
    using toggle_selection_twice[of "''1''" 0 grid 0] by simp
qed

section \<open>The category filter\<close>

lemma or_else_empty: "or_else x [] = (case x of None \<Rightarrow> [] | Some c \<Rightarrow> c)"
  by (simp add: or_else_def split: option.splits)




section \<open>Routine requests\<close>

lemma selected_loop_resolved:
  "selected_loop products ids acc =
   acc @ map minimal_fields (List.map_filter (find_by_string products) ids)"
  by (induction ids arbitrary: acc) (simp_all add: List.map_filter_simps split: option.splits)

lemma unresolved_map_filter:
  "list_all (\<lambda>i. f i = None) ids \<Longrightarrow> List.map_filter f ids = []"
  by (induction ids) (simp_all add: List.map_filter_simps)

text \<open>The comparison of the materializer, on the identifier as a string.\<close>

lemma String_product_key:
  "String (product_key p) =
   (case ident p of None \<Rightarrow> name p | Some (NumId n) \<Rightarrow> rendering n | Some (StrId s) \<Rightarrow> s)"
  by (simp add: product_key_def split: option.splits ident.splits)

lemma find_by_string_identifier:
  "find_by_string products =
   (\<lambda>i. find (\<lambda>p. (case ident p of None \<Rightarrow> name p | Some (NumId n) \<Rightarrow> rendering n
                               | Some (StrId s) \<Rightarrow> s) = i) products)"
  by (simp add: find_by_string_def String_product_key fun_eq_iff)

lemma minimal_fields_record:
  "minimal_fields =
   (\<lambda>p. \<lparr>ident = ident p, name = name p, brand = brand p, category = category p,
          description = Some (case description p of None \<Rightarrow> [] | Some d \<Rightarrow> d), image = None\<rparr>)"
  by (simp add: minimal_fields_def or_else_empty fun_eq_iff)

text \<open>
  C8. When a routine is requested on a page with the chat window and the materialized
  selection is empty, the chat window shows the message asking to select at least one
  product, and no request is sent to the generation endpoint.
\<close>

theorem generateRoutine_empty_selection:
  assumes "chatWindow st = Some w" "getSelectedProductsData st = []"
  shows "\<exists>s. generateRoutine js outcome st = Inr s \<and>
             chatWindow s =
               Some ''<div>Please select at least one product before generating a routine.</div>'' \<and>
             requests s = requests st"
  using assms by (simp add: generateRoutine_def select_message_def)

theorem generateRoutine_empty_selection_witness:
  "chatWindow grid = Some [] \<and> getSelectedProductsData grid = [] \<and>
   (\<exists>s. generateRoutine ascii network_failure grid = Inr s \<and>
        chatWindow s =
          Some ''<div>Please select at least one product before generating a routine.</div>'' \<and>
        requests s = requests grid)"
proof -
  have w: "chatWindow grid = Some []"
    by (simp add: grid_def page_def)
  have e: "getSelectedProductsData grid = []"
    by (simp add: getSelectedProductsData_def grid_def page_def)
  show ?thesis
    using w e generateRoutine_empty_selection[OF w e, of ascii network_failure] by simp
qed

text \<open>
  C9. In remote mode (chat window present, selection not empty, a credential
  configured), for every outcome of the request: \<^verbatim>\<open>generateRoutine\<close> finishes without an
  exception and has sent exactly one request; a request that fails, a body that cannot
  be read and a body that is not JSON are shown in place as \<^verbatim>\<open>Request failed:\<close> with the
  message of the error; a response that is not a success is shown as \<^verbatim>\<open>API error:\<close> with
  its status code, its status text and its raw body.
\<close>

theorem generateRoutine_remote_outcomes:
  assumes "chatWindow st = Some w" "getSelectedProductsData st \<noteq> []"
    and "OPENAI_API_KEY st = Some key" "key \<noteq> []"
  shows "\<exists>s. generateRoutine js outcome st = Inr s \<and>
             requests s = requests st @
               [\<lparr>url = ''https://spring-shape-150c.adebiyav.workers.dev/'',
                 authorization = ''Bearer '' @ key, payload = getSelectedProductsData st\<rparr>] \<and>
             (\<forall>n m. outcome = Inl (Error n m) \<longrightarrow>
                chatWindow s = Some (''<div>Request failed: '' @ m @ ''</div>'')) \<and>
             (\<forall>res n m. outcome = Inr res \<and> ok res \<and> json_body res = Inl (Error n m) \<longrightarrow>
                chatWindow s = Some (''<div>Request failed: '' @ m @ ''</div>'')) \<and>
             (\<forall>res n m. outcome = Inr res \<and> \<not> ok res \<and> text_body res = Inl (Error n m) \<longrightarrow>
                chatWindow s = Some (''<div>Request failed: '' @ m @ ''</div>'')) \<and>
             (\<forall>res t. outcome = Inr res \<and> \<not> ok res \<and> text_body res = Inr t \<longrightarrow>
                chatWindow s =
                  Some (''<div>API error: '' @ rendering (status res) @ '' '' @ statusText res @
                        ''<pre style='' @ [CHR 0x22] @ ''white-space:pre-wrap'' @ [CHR 0x22] @ ''>'' @
                        t @ ''</pre></div>''))"
proof -
  have key: "or_else (OPENAI_API_KEY st) [] = key"
    using assms(3,4) by (simp add: or_else_def)
  show ?thesis
  proof (cases "try_block js outcome")
    case (Inl err)
    then show ?thesis
      using assms(1,2) key assms(4)
      by (auto simp: generateRoutine_def Let_def try_block_def generation_request_def
            request_failed_message_def split: sum.splits if_splits option.splits)
  next
    case (Inr markup)
    then show ?thesis
      using assms(1,2) key assms(4)
      by (auto simp: generateRoutine_def Let_def try_block_def generation_request_def
            api_error_message_def dq_def split: sum.splits if_splits option.splits)
  qed
qed

theorem generateRoutine_remote_outcomes_witness:
  "(case generateRoutine ascii network_failure remote_grid of Inl e \<Rightarrow> None
    | Inr s \<Rightarrow> Some (chatWindow s, length (requests s))) =
     Some (Some ''<div>Request failed: Failed to fetch</div>'', 1) \<and>
   (case generateRoutine ascii unparsable_success remote_grid of Inl e \<Rightarrow> None
    | Inr s \<Rightarrow> Some (chatWindow s, length (requests s))) =
     Some (Some ''<div>Request failed: Unexpected token</div>'', 1) \<and>
   (case generateRoutine ascii server_refusal remote_grid of Inl e \<Rightarrow> None
    | Inr s \<Rightarrow> Some (chatWindow s, length (requests s))) =
     Some (Some (''<div>API error: 401 Unauthorized<pre style='' @ [CHR 0x22] @
                 ''white-space:pre-wrap'' @ [CHR 0x22] @ ''>bad key</pre></div>''), 1)"
proof -
  have w: "chatWindow remote_grid = Some []"
    by (simp add: remote_grid_def grid_def page_def)
  have n: "getSelectedProductsData remote_grid \<noteq> []"
    by code_simp
  have k: "OPENAI_API_KEY remote_grid = Some ''sk-test''"
    by (simp add: remote_grid_def)
  have k': "''sk-test'' \<noteq> []"
    by simp
  have r: "requests remote_grid = []"
    by (simp add: remote_grid_def grid_def page_def)
  from generateRoutine_remote_outcomes[OF w n k k', of ascii network_failure]
  have a: "(case generateRoutine ascii network_failure remote_grid of Inl e \<Rightarrow> None
            | Inr s \<Rightarrow> Some (chatWindow s, length (requests s))) =
           Some (Some ''<div>Request failed: Failed to fetch</div>'', 1)"
    by (auto simp: network_failure_def TypeError_def r)
  from generateRoutine_remote_outcomes[OF w n k k', of ascii unparsable_success]
  have b: "(case generateRoutine ascii unparsable_success remote_grid of Inl e \<Rightarrow> None
            | Inr s \<Rightarrow> Some (chatWindow s, length (requests s))) =
           Some (Some ''<div>Request failed: Unexpected token</div>'', 1)"
    by (auto simp: unparsable_success_def SyntaxError_def r)
  from generateRoutine_remote_outcomes[OF w n k k', of ascii server_refusal]
  have c: "(case generateRoutine ascii server_refusal remote_grid of Inl e \<Rightarrow> None
            | Inr s \<Rightarrow> Some (chatWindow s, length (requests s))) =
           Some (Some (''<div>API error: 401 Unauthorized<pre style='' @ [CHR 0x22] @
                 ''white-space:pre-wrap'' @ [CHR 0x22] @ ''>bad key</pre></div>''), 1)"
    by (auto simp: server_refusal_def r)
  from a b c show ?thesis by simp
qed

text \<open>
  C10. The selection materializer keeps, in selection order, for every selected
  identifier the first product of the catalog cache whose identifier (its \<^verbatim>\<open>id\<close>, or else
  its name), as a string, is the selected one, and drops every selected identifier that
  no product of the cache has. So when no selected identifier is that of a product of
  the cache (the catalog is not loaded yet, for one), a routine request on a page with
  the chat window shows the message asking to select at least one product, as for an
  empty selection, and sends no request.
\<close>

theorem unresolved_identifiers_dropped:
  "getSelectedProductsData st =
     map (\<lambda>p. \<lparr>ident = ident p, name = name p, brand = brand p, category = category p,
                description = Some (case description p of None \<Rightarrow> [] | Some d \<Rightarrow> d),
                image = None\<rparr>)
       (List.map_filter
          (\<lambda>i. find (\<lambda>p. (case ident p of None \<Rightarrow> name p | Some (NumId n) \<Rightarrow> rendering n
                                  | Some (StrId s) \<Rightarrow> s) = i)
                  (case allProductsCache st of None \<Rightarrow> [] | Some ps \<Rightarrow> ps))
          (selectedProductIds st)) \<and>
   ((\<forall>i\<in>set (selectedProductIds st).
       \<forall>p\<in>set (case allProductsCache st of None \<Rightarrow> [] | Some ps \<Rightarrow> ps).
         (case ident p of None \<Rightarrow> name p | Some (NumId n) \<Rightarrow> rendering n | Some (StrId s) \<Rightarrow> s) \<noteq> i) \<and>
    chatWindow st = Some w \<longrightarrow>
      getSelectedProductsData st = [] \<and>
      (\<exists>s. generateRoutine js outcome st = Inr s \<and>
           chatWindow s =
             Some ''<div>Please select at least one product before generating a routine.</div>'' \<and>
           requests s = requests st))"
proof -
  let ?key = "\<lambda>p. (case ident p of None \<Rightarrow> name p | Some (NumId n) \<Rightarrow> rendering n
                               | Some (StrId s) \<Rightarrow> s)"
  let ?cache = "case allProductsCache st of None \<Rightarrow> [] | Some ps \<Rightarrow> ps"
  have m: "getSelectedProductsData st =
           map minimal_fields (List.map_filter (\<lambda>i. find (\<lambda>p. ?key p = i) ?cache) (selectedProductIds st))"
    by (simp add: getSelectedProductsData_def selected_loop_resolved cached_products_def
          find_by_string_identifier)
  have none: "List.map_filter (\<lambda>i. find (\<lambda>p. ?key p = i) ?cache) (selectedProductIds st) = []"
    if "\<forall>i\<in>set (selectedProductIds st). \<forall>p\<in>set ?cache. ?key p \<noteq> i"
  proof (rule unresolved_map_filter)
    show "list_all (\<lambda>i. find (\<lambda>p. ?key p = i) ?cache = None) (selectedProductIds st)"
      using that by (auto simp: list_all_iff find_None_iff)
  qed
  have first: "getSelectedProductsData st =
     map (\<lambda>p. \<lparr>ident = ident p, name = name p, brand = brand p, category = category p,
                description = Some (case description p of None \<Rightarrow> [] | Some d \<Rightarrow> d),
                image = None\<rparr>)
       (List.map_filter (\<lambda>i. find (\<lambda>p. ?key p = i) ?cache) (selectedProductIds st))"
    using m by (simp only: minimal_fields_record)
  have second: "getSelectedProductsData st = [] \<and>
      (\<exists>s. generateRoutine js outcome st = Inr s \<and>
           chatWindow s =
             Some ''<div>Please select at least one product before generating a routine.</div>'' \<and>
           requests s = requests st)"
    if "\<forall>i\<in>set (selectedProductIds st). \<forall>p\<in>set ?cache. ?key p \<noteq> i" "chatWindow st = Some w"
  proof -
    have e: "getSelectedProductsData st = []"
      using m none[OF that(1)] by simp
    with that(2) show ?thesis
      by (simp add: generateRoutine_def select_message_def)
  qed
  from first second show ?thesis by blast
qed

theorem unresolved_identifiers_dropped_witness:
  "map name (getSelectedProductsData partly_stale) = [''B'', ''A''] \<and>
   selectedProductIds all_stale = [''nope'', ''A''] \<and>
   getSelectedProductsData all_stale = [] \<and>
   (\<exists>s. generateRoutine ascii network_failure all_stale = Inr s \<and>
        chatWindow s =
          Some ''<div>Please select at least one product before generating a routine.</div>'' \<and>
        requests s = [])"
proof -
  let ?key = "\<lambda>p. (case ident p of None \<Rightarrow> name p | Some (NumId n) \<Rightarrow> rendering n
                               | Some (StrId s) \<Rightarrow> s)"
  have kept: "map name
          (map (\<lambda>p. \<lparr>ident = ident p, name = name p, brand = brand p, category = category p,
                description = Some (case description p of None \<Rightarrow> [] | Some d \<Rightarrow> d),
                image = None\<rparr>)
            (List.map_filter
              (\<lambda>i. find (\<lambda>p. ?key p = i)
                      (case allProductsCache partly_stale of None \<Rightarrow> [] | Some ps \<Rightarrow> ps))
              (selectedProductIds partly_stale))) = [''B'', ''A'']"
    by code_simp
  have a: "map name (getSelectedProductsData partly_stale) = [''B'', ''A'']"
    using unresolved_identifiers_dropped[of partly_stale "[]" ascii network_failure] kept
    by simp
  have u: "\<forall>i\<in>set (selectedProductIds all_stale).
             \<forall>p\<in>set (case allProductsCache all_stale of None \<Rightarrow> [] | Some ps \<Rightarrow> ps). ?key p \<noteq> i"
    by code_simp
  have w: "chatWindow all_stale = Some []"
    by (simp add: all_stale_def grid_def page_def)
  have r: "requests all_stale = []"
    by (simp add: all_stale_def grid_def page_def)
  have s: "selectedProductIds all_stale = [''nope'', ''A'']"
    by (simp add: all_stale_def)
  have b: "getSelectedProductsData all_stale = [] \<and>
           (\<exists>s. generateRoutine ascii network_failure all_stale = Inr s \<and>
                chatWindow s =
                  Some ''<div>Please select at least one product before generating a routine.</div>'' \<and>
                requests s = requests all_stale)"
    by (rule mp[OF conjunct2[OF unresolved_identifiers_dropped[of all_stale "[]" ascii network_failure]]
          conjI[OF u w]])
  from a s b show ?thesis unfolding r by blast
qed

end
